theory Spec2Isabelle
  imports Complex_Main
begin

text \<open>
  The tax and wealth simulator of \<^verbatim>\<open>src/simulator.js\<close>. The source holds two files
  one after the other: the first (lines 1-390) carries the rule tables in the program,
  the second (lines 391-726) fetches the rules of a country when they are first needed
  and is the same program otherwise. Names of the second file that clash with the first
  carry the suffix \<open>_fetch\<close>.
\<close>

section \<open>JavaScript numbers\<close>

text \<open>
  Every quantity of the simulator is a JavaScript number. The model keeps the finite
  numbers as reals and adds the three values that IEEE arithmetic produces beyond them,
  so that a division by zero, the literal \<^verbatim>\<open>Infinity\<close> of the Irish pension bands
  and arithmetic on \<^verbatim>\<open>undefined\<close> are values of the model, as they are values of
  the program: JavaScript raises no error at any of them. The arithmetic on finite
  numbers is exact: the rounding, the overflow and the underflow of doubles and the sign
  of zero are left out. An amount is therefore stated below as the operations the code
  applies, in the code's order, and not as a decimal it would evaluate to; where a run
  is evaluated, the decimals are those of the exact arithmetic.
\<close>

datatype jsnum = Num real | Infinity | NegInfinity | NaN

instantiation jsnum :: "{plus, minus, times, inverse, ord}"
begin

fun plus_jsnum :: "jsnum \<Rightarrow> jsnum \<Rightarrow> jsnum" where
  "plus_jsnum NaN _ = NaN"
| "plus_jsnum _ NaN = NaN"
| "plus_jsnum (Num a) (Num b) = Num (a + b)"
| "plus_jsnum Infinity NegInfinity = NaN"
| "plus_jsnum NegInfinity Infinity = NaN"
| "plus_jsnum Infinity _ = Infinity"
| "plus_jsnum _ Infinity = Infinity"
| "plus_jsnum NegInfinity _ = NegInfinity"
| "plus_jsnum _ NegInfinity = NegInfinity"

fun minus_jsnum :: "jsnum \<Rightarrow> jsnum \<Rightarrow> jsnum" where
  "minus_jsnum NaN _ = NaN"
| "minus_jsnum _ NaN = NaN"
| "minus_jsnum (Num a) (Num b) = Num (a - b)"
| "minus_jsnum Infinity Infinity = NaN"
| "minus_jsnum NegInfinity NegInfinity = NaN"
| "minus_jsnum Infinity _ = Infinity"
| "minus_jsnum _ NegInfinity = Infinity"
| "minus_jsnum NegInfinity _ = NegInfinity"
| "minus_jsnum _ Infinity = NegInfinity"

fun times_jsnum :: "jsnum \<Rightarrow> jsnum \<Rightarrow> jsnum" where
  "times_jsnum NaN _ = NaN"
| "times_jsnum _ NaN = NaN"
| "times_jsnum (Num a) (Num b) = Num (a * b)"
| "times_jsnum Infinity (Num b) = (if b = 0 then NaN else if 0 < b then Infinity else NegInfinity)"
| "times_jsnum NegInfinity (Num b) = (if b = 0 then NaN else if 0 < b then NegInfinity else Infinity)"
| "times_jsnum (Num a) Infinity = (if a = 0 then NaN else if 0 < a then Infinity else NegInfinity)"
| "times_jsnum (Num a) NegInfinity = (if a = 0 then NaN else if 0 < a then NegInfinity else Infinity)"
| "times_jsnum Infinity Infinity = Infinity"
| "times_jsnum NegInfinity NegInfinity = Infinity"
| "times_jsnum Infinity NegInfinity = NegInfinity"
| "times_jsnum NegInfinity Infinity = NegInfinity"

fun divide_jsnum :: "jsnum \<Rightarrow> jsnum \<Rightarrow> jsnum" where
  "divide_jsnum NaN _ = NaN"
| "divide_jsnum _ NaN = NaN"
| "divide_jsnum (Num a) (Num b) =
     (if b \<noteq> 0 then Num (a / b)
      else if a = 0 then NaN else if 0 < a then Infinity else NegInfinity)"
| "divide_jsnum (Num a) _ = Num 0"
| "divide_jsnum Infinity (Num b) = (if 0 \<le> b then Infinity else NegInfinity)"
| "divide_jsnum NegInfinity (Num b) = (if 0 \<le> b then NegInfinity else Infinity)"
| "divide_jsnum _ _ = NaN"

definition inverse_jsnum :: "jsnum \<Rightarrow> jsnum" where
  "inverse_jsnum x = divide (Num 1) x"

fun less_jsnum :: "jsnum \<Rightarrow> jsnum \<Rightarrow> bool" where
  "less_jsnum NaN _ = False"
| "less_jsnum _ NaN = False"
| "less_jsnum (Num a) (Num b) = (a < b)"
| "less_jsnum _ NegInfinity = False"
| "less_jsnum Infinity _ = False"
| "less_jsnum NegInfinity _ = True"
| "less_jsnum _ Infinity = True"

fun less_eq_jsnum :: "jsnum \<Rightarrow> jsnum \<Rightarrow> bool" where
  "less_eq_jsnum NaN _ = False"
| "less_eq_jsnum _ NaN = False"
| "less_eq_jsnum (Num a) (Num b) = (a \<le> b)"
| "less_eq_jsnum NegInfinity _ = True"
| "less_eq_jsnum _ Infinity = True"
| "less_eq_jsnum _ _ = False"

instance ..

end

text \<open>\<^verbatim>\<open>Math.min\<close> of two numbers: \<^verbatim>\<open>NaN\<close> when either is.\<close>

fun Math_min :: "jsnum \<Rightarrow> jsnum \<Rightarrow> jsnum" where
  "Math_min NaN _ = NaN"
| "Math_min _ NaN = NaN"
| "Math_min a b = (if a \<le> b then a else b)"

text \<open>
  Truthiness of a number: \<^verbatim>\<open>0\<close> and \<^verbatim>\<open>NaN\<close> are falsy. A property that
  may be \<^verbatim>\<open>null\<close> or \<^verbatim>\<open>undefined\<close> is an option; read as a number,
  \<^verbatim>\<open>undefined\<close> is \<^verbatim>\<open>NaN\<close>.
\<close>

fun truthy :: "jsnum \<Rightarrow> bool" where
  "truthy (Num a) = (a \<noteq> 0)"
| "truthy NaN = False"
| "truthy _ = True"

fun toNumber :: "jsnum option \<Rightarrow> jsnum" where
  "toNumber None = NaN"
| "toNumber (Some x) = x"

definition isFinite :: "jsnum \<Rightarrow> bool" where
  "isFinite x = (case x of Num _ \<Rightarrow> True | _ \<Rightarrow> False)"

section \<open>Rule tables and market parameters\<close>

text \<open>
  A bracket \<^verbatim>\<open>{rate, from, to}\<close>; \<^verbatim>\<open>to\<close> is \<^verbatim>\<open>null\<close> in the last bracket of
  every table. A tax component, a wealth-tax rule and a pension rule are objects tagged
  by their \<^verbatim>\<open>type\<close> string; a tag the code does not know is kept as a variant of
  its own, since the code has a branch for it.
\<close>

record bracket =
  b_rate :: jsnum
  b_from :: jsnum
  b_to :: "jsnum option"

datatype taxComponent =
    FlatRate string jsnum jsnum
  | Bracket string "bracket list"
  | OtherType string

fun name :: "taxComponent \<Rightarrow> string" where
  "name (FlatRate n r t) = n"
| "name (Bracket n bs) = n"
| "name (OtherType n) = n"

datatype wealthTaxRule =
    WealthFlat jsnum jsnum
  | WealthBracket "bracket list"

datatype pensionRule =
    FixedRate jsnum jsnum
  | AgeBasedPercentage "(jsnum \<times> jsnum) list" jsnum
  | OtherPension

record countryRules =
  incomeTaxes :: "taxComponent list option"
  wealthTax :: "wealthTaxRule option"
  personalAssetsTax :: "wealthTaxRule option"
  capitalGainsTax :: "string \<rightharpoonup> jsnum"
  pensionContribution :: pensionRule

text \<open>
  An entry of \<^verbatim>\<open>financialParameters\<close>: \<^verbatim>\<open>{expectedReturn, volatility}\<close> for
  an asset class, \<^verbatim>\<open>{rate, volatility}\<close> for inflation. Destructuring a property
  the entry does not have gives \<^verbatim>\<open>undefined\<close>, which is \<^verbatim>\<open>NaN\<close> in the arithmetic
  that follows.
\<close>

datatype finEntry = ReturnParams jsnum jsnum | InflationParams jsnum jsnum

fun expectedReturn :: "finEntry \<Rightarrow> jsnum" where
  "expectedReturn (ReturnParams e v) = e"
| "expectedReturn (InflationParams r v) = NaN"

fun rate :: "finEntry \<Rightarrow> jsnum" where
  "rate (ReturnParams e v) = NaN"
| "rate (InflationParams r v) = r"

fun volatility :: "finEntry \<Rightarrow> jsnum" where
  "volatility (ReturnParams e v) = v"
| "volatility (InflationParams r v) = v"

text \<open>
  The receiver \<^verbatim>\<open>this\<close> of the methods. The constructor assigns
  \<^verbatim>\<open>taxRules\<close> and \<^verbatim>\<open>financialParameters\<close>; two methods read the property
  \<^verbatim>\<open>FinancialParameters\<close> (capital F), which no code of the repository assigns.
  The methods are modelled for any receiver, so the property is an option, and
  \<open>TaxSystem\<close>, the constructor, leaves it \<^verbatim>\<open>undefined\<close>. The rule table, the
  parameter table and the rates of a country are objects read by key; they are maps
  here, which is what the program does for every key that is not the name of a member
  every object inherits (\<^verbatim>\<open>constructor\<close>, \<^verbatim>\<open>toString\<close> and the like): for
  such a country or asset class the program finds the inherited member where a map finds
  nothing, and the model does not cover it.
\<close>

record taxSystem =
  taxRules :: "string \<rightharpoonup> countryRules"
  financialParameters :: "string \<rightharpoonup> finEntry"
  FinancialParameters :: "(string \<rightharpoonup> finEntry) option"

definition TaxSystem :: "(string \<rightharpoonup> countryRules) \<Rightarrow> (string \<rightharpoonup> finEntry) \<Rightarrow> taxSystem" where
  "TaxSystem rules params =
     \<lparr>taxRules = rules, financialParameters = params, FinancialParameters = None\<rparr>"

text \<open>The constructor of the second file, which starts with an empty rule cache.\<close>

definition TaxSystem_fetch :: "(string \<rightharpoonup> finEntry) \<Rightarrow> taxSystem" where
  "TaxSystem_fetch params =
     \<lparr>taxRules = Map.empty, financialParameters = params, FinancialParameters = None\<rparr>"

datatype error = TypeError

section \<open>The tax evaluator\<close>

text \<open>
  \<^verbatim>\<open>calculateIncomeTaxes\<close>, lines 173-191. The loop over the brackets of one
  component adds to \<^verbatim>\<open>amount\<close>; \<^verbatim>\<open>bracket.to ? ... : ...\<close> tests truthiness, so
  an upper bound of \<^verbatim>\<open>0\<close> is read like \<^verbatim>\<open>null\<close>. Reading a property of
  \<^verbatim>\<open>this.taxRules[country]\<close> raises a \<^verbatim>\<open>TypeError\<close> when the country has no entry.
\<close>

definition taxableAmount :: "jsnum \<Rightarrow> bracket \<Rightarrow> jsnum" where
  "taxableAmount income b =
     (case b_to b of
        None \<Rightarrow> income - b_from b
      | Some t \<Rightarrow> if truthy t then Math_min income t - b_from b else income - b_from b)"

fun bracketLoop :: "jsnum \<Rightarrow> bracket list \<Rightarrow> jsnum \<Rightarrow> jsnum" where
  "bracketLoop income [] amount = amount"
| "bracketLoop income (b # bs) amount =
     bracketLoop income bs
       (if income > b_from b then amount + taxableAmount income b * b_rate b else amount)"

fun taxAmount :: "jsnum \<Rightarrow> taxComponent \<Rightarrow> jsnum" where
  "taxAmount income (FlatRate n r threshold) =
     (if income > threshold then (income - threshold) * r else Num 0)"
| "taxAmount income (Bracket n bs) = bracketLoop income bs (Num 0)"
| "taxAmount income (OtherType n) = Num 0"

definition calculateIncomeTaxes :: "taxSystem \<Rightarrow> jsnum \<Rightarrow> string \<Rightarrow> error + (string \<times> jsnum) list" where
  "calculateIncomeTaxes this income country =
     (case taxRules this country of
        None \<Rightarrow> Inl TypeError
      | Some rules \<Rightarrow>
          (case incomeTaxes rules of
             None \<Rightarrow> Inr []
           | Some taxes \<Rightarrow> Inr (map (\<lambda>tax. (name tax, taxAmount income tax)) taxes)))"

text \<open>
  \<^verbatim>\<open>calculateWealthTax\<close> of the first file, lines 193-199: the rate is applied to the
  whole wealth. A rule without a \<^verbatim>\<open>threshold\<close> property compares with
  \<^verbatim>\<open>undefined\<close>, which is false.
\<close>

definition calculateWealthTax :: "taxSystem \<Rightarrow> jsnum \<Rightarrow> string \<Rightarrow> error + jsnum" where
  "calculateWealthTax this wealth country =
     (case taxRules this country of
        None \<Rightarrow> Inl TypeError
      | Some rules \<Rightarrow>
          (case wealthTax rules of
             Some (WealthFlat r threshold) \<Rightarrow>
               if wealth > threshold then Inr (wealth * r) else Inr (Num 0)
           | _ \<Rightarrow> Inr (Num 0)))"

text \<open>
  \<^verbatim>\<open>calculateWealthTax\<close> of the second file, lines 450-470. Its first line,
  \<^verbatim>\<open>if (!this.loadCountryRules(country)) return 0\<close>, negates the promise an async
  function returns, which is an object and so truthy: the guard never fires. The
  bracket loop stops after the first bracket whose upper bound covers the wealth.
\<close>

fun wealthBracketLoop :: "jsnum \<Rightarrow> bracket list \<Rightarrow> jsnum \<Rightarrow> jsnum" where
  "wealthBracketLoop wealth [] tax = tax"
| "wealthBracketLoop wealth (b # bs) tax =
     (let upper = (case b_to b of None \<Rightarrow> Infinity
                   | Some t \<Rightarrow> if truthy t then t else Infinity);
          tax' = (if wealth > b_from b
                  then tax + Math_min (wealth - b_from b) (upper - b_from b) * b_rate b
                  else tax)
      in case b_to b of
           None \<Rightarrow> wealthBracketLoop wealth bs tax'
         | Some t \<Rightarrow> if truthy t \<and> wealth \<le> t then tax'
                     else wealthBracketLoop wealth bs tax')"

definition calculateWealthTax_fetch :: "taxSystem \<Rightarrow> jsnum \<Rightarrow> string \<Rightarrow> error + jsnum" where
  "calculateWealthTax_fetch this wealth country =
     (case taxRules this country of
        None \<Rightarrow> Inl TypeError
      | Some rules \<Rightarrow>
          (case (case personalAssetsTax rules of Some w \<Rightarrow> Some w | None \<Rightarrow> wealthTax rules) of
             None \<Rightarrow> Inr (Num 0)
           | Some (WealthBracket bs) \<Rightarrow> Inr (wealthBracketLoop wealth bs (Num 0))
           | Some (WealthFlat r threshold) \<Rightarrow>
               Inr (if wealth > threshold then (wealth - threshold) * r else Num 0)))"

text \<open>
  \<^verbatim>\<open>calculatePensionContribution\<close>, lines 201-219. \<^verbatim>\<open>rates.find(...)\<close> is
  \<^verbatim>\<open>undefined\<close> when no band matches the age, and reading its \<^verbatim>\<open>rate\<close> raises.
\<close>

definition calculatePensionContribution :: "taxSystem \<Rightarrow> jsnum \<Rightarrow> string \<Rightarrow> jsnum \<Rightarrow> error + jsnum" where
  "calculatePensionContribution this income country age =
     (case taxRules this country of
        None \<Rightarrow> Inl TypeError
      | Some rules \<Rightarrow>
          (case pensionContribution rules of
             FixedRate employeeRate employerRate \<Rightarrow> Inr (income * (employeeRate + employerRate))
           | AgeBasedPercentage rates annualCap \<Rightarrow>
               (case find (\<lambda>r. age \<le> fst r) rates of
                  None \<Rightarrow> Inl TypeError
                | Some r \<Rightarrow> Inr (Math_min (income * snd r) annualCap))
           | OtherPension \<Rightarrow> Inr (Num 0)))"

text \<open>
  An investment position. \<^verbatim>\<open>gains\<close> is \<^verbatim>\<open>undefined\<close> until
  \<^verbatim>\<open>calculateInvestmentReturns\<close> writes it.
\<close>

record investment =
  itype :: string
  amount :: jsnum
  gains :: "jsnum option"

text \<open>
  \<^verbatim>\<open>calculateCapitalGainsTax\<close>, lines 221-232; \<^verbatim>\<open>capitalGainsRule[type] || 0\<close>
  is \<^verbatim>\<open>0\<close> for a missing class and for a falsy rate.
\<close>

definition rateOrZero :: "jsnum option \<Rightarrow> jsnum" where
  "rateOrZero v = (case v of None \<Rightarrow> Num 0 | Some r \<Rightarrow> if truthy r then r else Num 0)"

fun capitalGainsLoop :: "(string \<rightharpoonup> jsnum) \<Rightarrow> investment list \<Rightarrow> jsnum \<Rightarrow> jsnum" where
  "capitalGainsLoop capitalGainsRule [] totalCapitalGainsTax = totalCapitalGainsTax"
| "capitalGainsLoop capitalGainsRule (iv # invs) totalCapitalGainsTax =
     capitalGainsLoop capitalGainsRule invs
       (totalCapitalGainsTax + toNumber (gains iv) * rateOrZero (capitalGainsRule (itype iv)))"

definition calculateCapitalGainsTax :: "taxSystem \<Rightarrow> investment list \<Rightarrow> string \<Rightarrow> error + jsnum" where
  "calculateCapitalGainsTax this invs country =
     (case taxRules this country of
        None \<Rightarrow> Inl TypeError
      | Some rules \<Rightarrow> Inr (capitalGainsLoop (capitalGainsTax rules) invs (Num 0)))"

section \<open>The market model\<close>

text \<open>
  \<^verbatim>\<open>Math.random()\<close> is a supplied capability: \<open>draws\<close> is the sequence of values
  it returns during a run, and the number of calls made so far is threaded through the
  functions that call it.
\<close>

definition randomFactor :: "(nat \<Rightarrow> real) \<Rightarrow> nat \<Rightarrow> jsnum \<Rightarrow> jsnum" where
  "randomFactor draws n vol = (Num (draws n) * Num 2 - Num 1) * vol"

text \<open>
  \<^verbatim>\<open>calculateInvestmentReturns\<close>, lines 234-242: destructuring
  \<^verbatim>\<open>this.financialParameters[type]\<close> raises for a class without an entry.
\<close>

fun calculateInvestmentReturns ::
  "taxSystem \<Rightarrow> (nat \<Rightarrow> real) \<Rightarrow> nat \<Rightarrow> investment list \<Rightarrow> error + (investment list \<times> nat)" where
  "calculateInvestmentReturns this draws n [] = Inr ([], n)"
| "calculateInvestmentReturns this draws n (iv # invs) =
     (case financialParameters this (itype iv) of
        None \<Rightarrow> Inl TypeError
      | Some e \<Rightarrow>
          (let nominalReturn = expectedReturn e + randomFactor draws n (volatility e);
               iv' = iv\<lparr>gains := Some (amount iv * nominalReturn)\<rparr>
           in case calculateInvestmentReturns this draws (Suc n) invs of
                Inl err \<Rightarrow> Inl err
              | Inr (invs', n') \<Rightarrow> Inr (iv' # invs', n')))"

text \<open>
  \<^verbatim>\<open>calculatePensionReturns\<close>, lines 244-249, and \<^verbatim>\<open>calculateExpenses\<close>, lines
  251-256, read \<^verbatim>\<open>this.FinancialParameters\<close>. Destructuring a property of
  \<^verbatim>\<open>undefined\<close> raises a \<^verbatim>\<open>TypeError\<close> before \<^verbatim>\<open>Math.random()\<close> is called.
\<close>

definition calculatePensionReturns ::
  "taxSystem \<Rightarrow> (nat \<Rightarrow> real) \<Rightarrow> nat \<Rightarrow> jsnum \<Rightarrow> error + (jsnum \<times> nat)" where
  "calculatePensionReturns this draws n pensionPot =
     (case FinancialParameters this of
        None \<Rightarrow> Inl TypeError
      | Some params \<Rightarrow>
          (case params ''pension'' of
             None \<Rightarrow> Inl TypeError
           | Some e \<Rightarrow>
               (let nominalReturn = expectedReturn e + randomFactor draws n (volatility e)
                in Inr (pensionPot * nominalReturn, Suc n))))"

definition calculateExpenses ::
  "taxSystem \<Rightarrow> (nat \<Rightarrow> real) \<Rightarrow> nat \<Rightarrow> jsnum \<Rightarrow> error + (jsnum \<times> nat)" where
  "calculateExpenses this draws n expenses =
     (case FinancialParameters this of
        None \<Rightarrow> Inl TypeError
      | Some params \<Rightarrow>
          (case params ''inflation'' of
             None \<Rightarrow> Inl TypeError
           | Some e \<Rightarrow>
               (let adjustedInflationRate = rate e + randomFactor draws n (volatility e)
                in Inr (expenses * (Num 1 + adjustedInflationRate), Suc n))))"

definition calculatePensionIncome :: "jsnum \<Rightarrow> jsnum \<Rightarrow> jsnum" where
  "calculatePensionIncome pensionPot r = pensionPot * r"

section \<open>The simulation engine\<close>

text \<open>
  A life event \<^verbatim>\<open>{year, income, expenses, event, newCountry}\<close>. The income and the
  expenses may be missing. The event is \<^verbatim>\<open>'retire'\<close>, \<^verbatim>\<open>'move'\<close> with the
  \<^verbatim>\<open>newCountry\<close> it moves to, some other string, or missing. The fields of a year's
  result carry the prefix \<open>yr_\<close>, since several share their names with variables
  of the loop.
\<close>

datatype eventKind = Retire | Move string | OtherEvent

record lifeEvent =
  year :: int
  income :: "jsnum option"
  expenses :: "jsnum option"
  event :: "eventKind option"

record profile =
  birthYear :: int
  initialWealth :: jsnum
  initialPensionPot :: jsnum
  initialInvestments :: "investment list"
  initialCountry :: string
  targetYear :: int
  lifeEvents :: "lifeEvent list"

text \<open>
  The local variables of \<^verbatim>\<open>simulateScenario\<close> that live across the years of the
  loop, with the number of \<^verbatim>\<open>Math.random()\<close> calls made so far.
\<close>

record simState =
  remainingWealth :: jsnum
  investments :: "investment list"
  pensionPot :: jsnum
  isRetired :: bool
  previousIncome :: "jsnum option"
  previousExpenses :: "jsnum option"
  country :: string
  randomCalls :: nat

record yearResult =
  yr_year :: int
  yr_country :: string
  yr_incomeTaxes :: "(string \<times> jsnum) list"
  yr_wealthTax :: jsnum
  yr_pensionIncome :: jsnum
  yr_capitalGainsTax :: jsnum
  yr_totalTax :: jsnum
  yr_netIncome :: jsnum
  yr_expenses :: jsnum
  yr_remainingWealth :: jsnum

text \<open>Lines 263-272: the variables before the loop.\<close>

definition initialState :: "profile \<Rightarrow> simState" where
  "initialState p =
     \<lparr>remainingWealth = initialWealth p,
      investments = initialInvestments p,
      pensionPot = initialPensionPot p,
      isRetired = False,
      previousIncome = (case lifeEvents p of [] \<Rightarrow> Some (Num 0) | e # _ \<Rightarrow> income e),
      previousExpenses = (case lifeEvents p of [] \<Rightarrow> Some (Num 0) | e # _ \<Rightarrow> expenses e),
      country = initialCountry p,
      randomCalls = 0\<rparr>"

text \<open>
  Lines 275-290: the life event of the year (the first of the list with that year),
  this year's income and expenses, and the event's effect on the retirement flag and
  the country. The result is the income, the expenses and the state after line 290.
\<close>

definition applyLifeEvent ::
  "taxSystem \<Rightarrow> profile \<Rightarrow> (nat \<Rightarrow> real) \<Rightarrow> int \<Rightarrow> simState \<Rightarrow> error + (jsnum option \<times> jsnum \<times> simState)" where
  "applyLifeEvent this p draws y st =
     (let lifeEvent = find (\<lambda>e. year e = y) (lifeEvents p);
          income' = (case lifeEvent of
                       None \<Rightarrow> previousIncome st
                     | Some ev \<Rightarrow> (case income ev of None \<Rightarrow> previousIncome st | Some i \<Rightarrow> Some i));
          retired = (case lifeEvent of
                       None \<Rightarrow> isRetired st
                     | Some ev \<Rightarrow> (if event ev = Some Retire then True else isRetired st));
          country' = (case lifeEvent of
                        None \<Rightarrow> country st
                      | Some ev \<Rightarrow> (case event ev of Some (Move c) \<Rightarrow> c | _ \<Rightarrow> country st))
      in case (case lifeEvent of
                 None \<Rightarrow> calculateExpenses this draws (randomCalls st) (toNumber (previousExpenses st))
               | Some ev \<Rightarrow>
                   (case expenses ev of
                      None \<Rightarrow> calculateExpenses this draws (randomCalls st) (toNumber (previousExpenses st))
                    | Some x \<Rightarrow> Inr (x, randomCalls st))) of
           Inl err \<Rightarrow> Inl err
         | Inr (expenses', n) \<Rightarrow>
             Inr (income', expenses',
                  st\<lparr>previousIncome := income', previousExpenses := Some expenses',
                     isRetired := retired, country := country', randomCalls := n\<rparr>))"

text \<open>
  Lines 317-326: the deficit is taken from the wealth; a surplus is added to it and then
  spread over the positions, each divided by the wealth that already holds the surplus.
\<close>

definition updateWealth :: "jsnum \<Rightarrow> jsnum \<Rightarrow> jsnum \<Rightarrow> investment list \<Rightarrow> jsnum \<times> investment list" where
  "updateWealth netIncome expenses' wealth invs =
     (if netIncome < expenses' then (wealth - (expenses' - netIncome), invs)
      else (let surplus = netIncome - expenses';
                wealth' = wealth + surplus
            in (wealth', map (\<lambda>iv. iv\<lparr>amount := amount iv + surplus * (amount iv / wealth')\<rparr>) invs)))"

text \<open>
  Lines 292-339, the rest of the loop body. The two files differ here only in the
  \<^verbatim>\<open>calculateWealthTax\<close> they call, which is the parameter \<open>wealthTaxOf\<close>.
  An \<^verbatim>\<open>undefined\<close> income is \<^verbatim>\<open>NaN\<close> in every sum and product it enters.
\<close>

definition yearBody ::
  "(taxSystem \<Rightarrow> jsnum \<Rightarrow> string \<Rightarrow> error + jsnum) \<Rightarrow> taxSystem \<Rightarrow> profile \<Rightarrow> (nat \<Rightarrow> real) \<Rightarrow> int \<Rightarrow>
   jsnum option \<Rightarrow> jsnum \<Rightarrow> simState \<Rightarrow> error + (yearResult \<times> simState)" where
  "yearBody wealthTaxOf this p draws y income' expenses' st =
     (case calculateInvestmentReturns this draws (randomCalls st) (investments st) of
        Inl err \<Rightarrow> Inl err
      | Inr (invs, n1) \<Rightarrow>
     (case calculatePensionReturns this draws n1 (pensionPot st) of
        Inl err \<Rightarrow> Inl err
      | Inr (returns, n2) \<Rightarrow>
     (case calculatePensionContribution this (toNumber income') (country st)
             (Num (of_int (y - birthYear p))) of
        Inl err \<Rightarrow> Inl err
      | Inr pensionContribution' \<Rightarrow>
     (let pot = pensionPot st + returns + pensionContribution';
          pensionIncome = (if isRetired st then calculatePensionIncome pot (Num 0.04) else Num 0)
      in
     (case calculateIncomeTaxes this (toNumber income' + pensionIncome) (country st) of
        Inl err \<Rightarrow> Inl err
      | Inr incomeTaxes' \<Rightarrow>
     (case wealthTaxOf this (remainingWealth st) (country st) of
        Inl err \<Rightarrow> Inl err
      | Inr wealthTax' \<Rightarrow>
     (case calculateCapitalGainsTax this invs (country st) of
        Inl err \<Rightarrow> Inl err
      | Inr capitalGainsTax' \<Rightarrow>
     (let totalTax = foldl (\<lambda>sum tax. sum + snd tax) (Num 0) incomeTaxes'
                       + wealthTax' + capitalGainsTax';
          totalIncome = toNumber income' + pensionIncome
                          + foldl (\<lambda>acc iv. acc + toNumber (gains iv)) (Num 0) invs;
          netIncome = totalIncome - totalTax;
          (wealth', invs') = updateWealth netIncome expenses' (remainingWealth st) invs
      in Inr (\<lparr>yr_year = y, yr_country = country st, yr_incomeTaxes = incomeTaxes',
               yr_wealthTax = wealthTax', yr_pensionIncome = pensionIncome,
               yr_capitalGainsTax = capitalGainsTax', yr_totalTax = totalTax,
               yr_netIncome = netIncome, yr_expenses = expenses',
               yr_remainingWealth = wealth'\<rparr>,
              st\<lparr>remainingWealth := wealth', investments := invs', pensionPot := pot,
                 randomCalls := n2\<rparr>)))))))))"

text \<open>One iteration of the loop of the first file, lines 275-339.\<close>

definition yearStep ::
  "taxSystem \<Rightarrow> profile \<Rightarrow> (nat \<Rightarrow> real) \<Rightarrow> int \<Rightarrow> simState \<Rightarrow> error + (yearResult \<times> simState)" where
  "yearStep this p draws y st =
     (case applyLifeEvent this p draws y st of
        Inl err \<Rightarrow> Inl err
      | Inr (income', expenses', st1) \<Rightarrow>
          yearBody calculateWealthTax this p draws y income' expenses' st1)"

text \<open>
  The loop of \<^verbatim>\<open>simulateScenario\<close>, from the current year (what
  \<^verbatim>\<open>new Date().getFullYear()\<close> returns, a parameter here) to the target year. Beside
  each result the loop of the model keeps the state the year ended in;
  \<open>simulateScenario\<close> returns the results alone, as the program does.
\<close>

function simLoop ::
  "taxSystem \<Rightarrow> profile \<Rightarrow> (nat \<Rightarrow> real) \<Rightarrow> int \<Rightarrow> simState \<Rightarrow> (yearResult \<times> simState) list \<Rightarrow>
   error + (yearResult \<times> simState) list" where
  "simLoop this p draws y st results =
     (if y \<le> targetYear p
      then (case yearStep this p draws y st of
              Inl err \<Rightarrow> Inl err
            | Inr (r, st') \<Rightarrow> simLoop this p draws (y + 1) st' (results @ [(r, st')]))
      else Inr results)"
  by pat_completeness auto
termination
  by (relation "measure (\<lambda>(this, p, draws, y, st, results). nat (targetYear p + 1 - y))") auto

definition simulateScenario ::
  "taxSystem \<Rightarrow> int \<Rightarrow> (nat \<Rightarrow> real) \<Rightarrow> profile \<Rightarrow> error + yearResult list" where
  "simulateScenario this currentYear draws p =
     (case simLoop this p draws currentYear (initialState p) [] of
        Inl err \<Rightarrow> Inl err
      | Inr results \<Rightarrow> Inr (map fst results))"

section \<open>The second file: rules fetched per country\<close>

text \<open>
  \<^verbatim>\<open>loadCountryRules\<close>, lines 412-426. \<open>fetch\<close> is what the request for
  \<^verbatim>\<open>taxRules/<country>.json\<close> yields at the time of the call: the rules, or
  nothing when the request or the parsing fails. Rules once loaded stay in
  \<^verbatim>\<open>this.taxRules\<close>. The method returns whether the rules are there, with the
  receiver it leaves.
\<close>

definition loadCountryRules ::
  "(string \<rightharpoonup> countryRules) \<Rightarrow> taxSystem \<Rightarrow> string \<Rightarrow> bool \<times> taxSystem" where
  "loadCountryRules fetch this country' =
     (case taxRules this country' of
        Some rules \<Rightarrow> (True, this)
      | None \<Rightarrow>
          (case fetch country' of
             None \<Rightarrow> (False, this)
           | Some rules \<Rightarrow> (True, this\<lparr>taxRules := (taxRules this)(country' \<mapsto> rules)\<rparr>)))"

text \<open>
  One iteration of the loop of the second file, lines 550-620: \<open>None\<close> for a year
  that \<^verbatim>\<open>continue\<close> leaves at line 570. The calculators of this file start with the
  guard \<^verbatim>\<open>if (!this.loadCountryRules(country)) return ...\<close>; the call is not awaited,
  its promise is truthy, and the rules are in the cache by then, so the guard neither
  fires nor changes the receiver, and the calculators are those of the first file but
  for \<^verbatim>\<open>calculateWealthTax\<close>.
\<close>

definition yearStep_fetch ::
  "(string \<rightharpoonup> countryRules) \<Rightarrow> taxSystem \<Rightarrow> profile \<Rightarrow> (nat \<Rightarrow> real) \<Rightarrow> int \<Rightarrow> simState \<Rightarrow>
   error + (yearResult option \<times> taxSystem \<times> simState)" where
  "yearStep_fetch fetch this p draws y st =
     (case applyLifeEvent this p draws y st of
        Inl err \<Rightarrow> Inl err
      | Inr (income', expenses', st1) \<Rightarrow>
          (case loadCountryRules fetch this (country st1) of
             (False, this') \<Rightarrow> Inr (None, this', st1)
           | (True, this') \<Rightarrow>
               (case yearBody calculateWealthTax_fetch this' p draws y income' expenses' st1 of
                  Inl err \<Rightarrow> Inl err
                | Inr (r, st') \<Rightarrow> Inr (Some r, this', st'))))"

text \<open>
  The loop of the second file. \<open>fetch y\<close> is what a request made during the iteration
  of year \<open>y\<close> yields; the loop makes at most one request a year.
\<close>

function simLoop_fetch ::
  "(int \<Rightarrow> string \<rightharpoonup> countryRules) \<Rightarrow> taxSystem \<Rightarrow> profile \<Rightarrow> (nat \<Rightarrow> real) \<Rightarrow> int \<Rightarrow> simState \<Rightarrow>
   yearResult list \<Rightarrow> error + yearResult list" where
  "simLoop_fetch fetch this p draws y st results =
     (if y \<le> targetYear p
      then (case yearStep_fetch (fetch y) this p draws y st of
              Inl err \<Rightarrow> Inl err
            | Inr (None, this', st') \<Rightarrow> simLoop_fetch fetch this' p draws (y + 1) st' results
            | Inr (Some r, this', st') \<Rightarrow>
                simLoop_fetch fetch this' p draws (y + 1) st' (results @ [r]))
      else Inr results)"
  by pat_completeness auto
termination
  by (relation "measure (\<lambda>(fetch, this, p, draws, y, st, results). nat (targetYear p + 1 - y))") auto

definition simulateScenario_fetch ::
  "(int \<Rightarrow> string \<rightharpoonup> countryRules) \<Rightarrow> taxSystem \<Rightarrow> int \<Rightarrow> (nat \<Rightarrow> real) \<Rightarrow> profile \<Rightarrow>
   error + yearResult list" where
  "simulateScenario_fetch fetch this currentYear draws p =
     simLoop_fetch fetch this p draws currentYear (initialState p) []"

section \<open>The tables and the profile of the repository\<close>

definition Germany :: countryRules where
  "Germany =
     \<lparr>incomeTaxes = Some
        [Bracket ''Income Tax''
           [\<lparr>b_rate = Num 0.14, b_from = Num 0, b_to = Some (Num 10000)\<rparr>,
            \<lparr>b_rate = Num 0.3, b_from = Num 10001, b_to = Some (Num 50000)\<rparr>,
            \<lparr>b_rate = Num 0.42, b_from = Num 50001, b_to = Some (Num 200000)\<rparr>,
            \<lparr>b_rate = Num 0.45, b_from = Num 200001, b_to = None\<rparr>]],
      wealthTax = Some (WealthFlat (Num 0.01) (Num 1000000)),
      personalAssetsTax = None,
      capitalGainsTax =
        [''indexFunds'' \<mapsto> Num 0.25, ''etfs'' \<mapsto> Num 0.25, ''investmentTrusts'' \<mapsto> Num 0.28,
         ''individualShares'' \<mapsto> Num 0.3, ''bonds'' \<mapsto> Num 0.15],
      pensionContribution = FixedRate (Num 0.09) (Num 0.09)\<rparr>"

definition USA :: countryRules where
  "USA =
     \<lparr>incomeTaxes = Some
        [Bracket ''Federal Income Tax''
           [\<lparr>b_rate = Num 0.1, b_from = Num 0, b_to = Some (Num 9950)\<rparr>,
            \<lparr>b_rate = Num 0.12, b_from = Num 9951, b_to = Some (Num 40525)\<rparr>,
            \<lparr>b_rate = Num 0.22, b_from = Num 40526, b_to = Some (Num 86375)\<rparr>,
            \<lparr>b_rate = Num 0.24, b_from = Num 86376, b_to = Some (Num 164925)\<rparr>,
            \<lparr>b_rate = Num 0.32, b_from = Num 164926, b_to = Some (Num 209425)\<rparr>,
            \<lparr>b_rate = Num 0.35, b_from = Num 209426, b_to = Some (Num 523600)\<rparr>,
            \<lparr>b_rate = Num 0.37, b_from = Num 523601, b_to = None\<rparr>],
         FlatRate ''Social Security Tax'' (Num 0.062) (Num 0),
         FlatRate ''Medicare Tax'' (Num 0.0145) (Num 0)],
      wealthTax = None,
      personalAssetsTax = None,
      capitalGainsTax =
        [''indexFunds'' \<mapsto> Num 0.2, ''etfs'' \<mapsto> Num 0.2, ''investmentTrusts'' \<mapsto> Num 0.22,
         ''individualShares'' \<mapsto> Num 0.25, ''bonds'' \<mapsto> Num 0.15],
      pensionContribution = FixedRate (Num 0.062) (Num 0.062)\<rparr>"

definition France :: countryRules where
  "France =
     \<lparr>incomeTaxes = Some
        [Bracket ''Income Tax''
           [\<lparr>b_rate = Num 0, b_from = Num 0, b_to = Some (Num 10225)\<rparr>,
            \<lparr>b_rate = Num 0.11, b_from = Num 10226, b_to = Some (Num 26070)\<rparr>,
            \<lparr>b_rate = Num 0.3, b_from = Num 26071, b_to = Some (Num 74545)\<rparr>,
            \<lparr>b_rate = Num 0.41, b_from = Num 74546, b_to = Some (Num 160336)\<rparr>,
            \<lparr>b_rate = Num 0.45, b_from = Num 160337, b_to = None\<rparr>],
         FlatRate ''General Social Contribution'' (Num 0.092) (Num 0)],
      wealthTax = Some (WealthFlat (Num 0.015) (Num 1300000)),
      personalAssetsTax = None,
      capitalGainsTax =
        [''indexFunds'' \<mapsto> Num 0.3, ''etfs'' \<mapsto> Num 0.3, ''investmentTrusts'' \<mapsto> Num 0.32,
         ''individualShares'' \<mapsto> Num 0.35, ''bonds'' \<mapsto> Num 0.2],
      pensionContribution = FixedRate (Num 0.082) (Num 0.172)\<rparr>"

definition Ireland :: countryRules where
  "Ireland =
     \<lparr>incomeTaxes = Some
        [Bracket ''Income Tax''
           [\<lparr>b_rate = Num 0.20, b_from = Num 0, b_to = Some (Num 36800)\<rparr>,
            \<lparr>b_rate = Num 0.40, b_from = Num 36801, b_to = None\<rparr>],
         Bracket ''Universal Social Charge''
           [\<lparr>b_rate = Num 0.005, b_from = Num 0, b_to = Some (Num 12012)\<rparr>,
            \<lparr>b_rate = Num 0.02, b_from = Num 12013, b_to = Some (Num 21295)\<rparr>,
            \<lparr>b_rate = Num 0.045, b_from = Num 21296, b_to = Some (Num 70044)\<rparr>,
            \<lparr>b_rate = Num 0.08, b_from = Num 70045, b_to = None\<rparr>],
         FlatRate ''Pay Related Social Insurance'' (Num 0.04) (Num 18304)],
      wealthTax = None,
      personalAssetsTax = None,
      capitalGainsTax =
        [''indexFunds'' \<mapsto> Num 0.33, ''etfs'' \<mapsto> Num 0.33, ''investmentTrusts'' \<mapsto> Num 0.33,
         ''individualShares'' \<mapsto> Num 0.33, ''bonds'' \<mapsto> Num 0.33],
      pensionContribution =
        AgeBasedPercentage
          [(Num 29, Num 0.15), (Num 39, Num 0.20), (Num 49, Num 0.25), (Num 59, Num 0.30),
           (Infinity, Num 0.35)]
          (Num 115000)\<rparr>"

definition taxRules_table :: "string \<rightharpoonup> countryRules" where
  "taxRules_table =
     [''Germany'' \<mapsto> Germany, ''USA'' \<mapsto> USA, ''France'' \<mapsto> France, ''Ireland'' \<mapsto> Ireland]"

definition financialParameters_table :: "string \<rightharpoonup> finEntry" where
  "financialParameters_table =
     [''indexFunds'' \<mapsto> ReturnParams (Num 0.07) (Num 0.1),
      ''etfs'' \<mapsto> ReturnParams (Num 0.08) (Num 0.15),
      ''investmentTrusts'' \<mapsto> ReturnParams (Num 0.06) (Num 0.12),
      ''individualShares'' \<mapsto> ReturnParams (Num 0.1) (Num 0.25),
      ''bonds'' \<mapsto> ReturnParams (Num 0.04) (Num 0.05),
      ''pension'' \<mapsto> ReturnParams (Num 0.05) (Num 0.02),
      ''inflation'' \<mapsto> InflationParams (Num 0.02) (Num 0.005)]"

definition userProfile :: profile where
  "userProfile =
     \<lparr>birthYear = 1985,
      initialWealth = Num 1200000,
      initialPensionPot = Num 100000,
      initialInvestments =
        [\<lparr>itype = ''indexFunds'', amount = Num 50000, gains = None\<rparr>,
         \<lparr>itype = ''individualShares'', amount = Num 30000, gains = None\<rparr>],
      initialCountry = ''Germany'',
      targetYear = 2050,
      lifeEvents =
        [\<lparr>year = 2025, income = Some (Num 80000), expenses = Some (Num 42000),
          event = Some (Move ''USA'')\<rparr>,
         \<lparr>year = 2030, income = None, expenses = None, event = Some Retire\<rparr>]\<rparr>"

section \<open>Well-formed brackets and the amounts as real functions\<close>

text \<open>
  The finite number a value stands for, and the brackets whose three numbers are finite
  and whose upper bound, when there is one, is not below the lower bound.
\<close>

fun realOf :: "jsnum \<Rightarrow> real" where
  "realOf (Num a) = a"
| "realOf _ = 0"

definition finiteBracket :: "bracket \<Rightarrow> bool" where
  "finiteBracket b =
     (isFinite (b_rate b) \<and> isFinite (b_from b) \<and>
      (case b_to b of None \<Rightarrow> True | Some t \<Rightarrow> isFinite t))"

definition orderedBracket :: "bracket \<Rightarrow> bool" where
  "orderedBracket b =
     (finiteBracket b \<and> (case b_to b of None \<Rightarrow> True | Some t \<Rightarrow> b_from b \<le> t))"

definition nonNegativeRate :: "bracket \<Rightarrow> bool" where
  "nonNegativeRate b = (Num 0 \<le> b_rate b)"

text \<open>What one ordered bracket adds to the amount at base \<open>x\<close>, as a real function.\<close>

definition sliceAmount :: "bracket \<Rightarrow> real \<Rightarrow> real" where
  "sliceAmount b x =
     (case b_to b of
        None \<Rightarrow> max 0 (x - realOf (b_from b))
      | Some t \<Rightarrow> if realOf t = 0 then max 0 (x - realOf (b_from b))
                  else max 0 (min x (realOf t) - realOf (b_from b))) * realOf (b_rate b)"

section \<open>The spec's formulas for the income-tax amounts\<close>









section \<open>Receivers and profiles for the worked runs\<close>

text \<open>
  A receiver on which \<^verbatim>\<open>FinancialParameters\<close> has been assigned after construction
  (\<^verbatim>\<open>taxSystem.FinancialParameters = financialParameters\<close>): the receivers on which a
  year of the simulation can complete. One for each file.
\<close>

definition assignedSystem :: taxSystem where
  "assignedSystem =
     (TaxSystem taxRules_table financialParameters_table)
       \<lparr>FinancialParameters := Some financialParameters_table\<rparr>"


text \<open>
  A profile with no wealth, no income, no expenses and one empty position, every amount
  of which is an exact zero in floating point as well; a profile whose retire event lies
  before the first simulated year;
  and a profile that moves, in its second year, to a country no request resolves.
\<close>

definition emptyProfile :: profile where
  "emptyProfile =
     \<lparr>birthYear = 1985,
      initialWealth = Num 0,
      initialPensionPot = Num 0,
      initialInvestments = [\<lparr>itype = ''indexFunds'', amount = Num 0, gains = None\<rparr>],
      initialCountry = ''Germany'',
      targetYear = 2026,
      lifeEvents =
        [\<lparr>year = 2026, income = Some (Num 0), expenses = Some (Num 0), event = None\<rparr>]\<rparr>"

definition earlyRetiree :: profile where
  "earlyRetiree =
     \<lparr>birthYear = 1955,
      initialWealth = Num 1200000,
      initialPensionPot = Num 100000,
      initialInvestments = [],
      initialCountry = ''Germany'',
      targetYear = 2026,
      lifeEvents =
        [\<lparr>year = 2020, income = Some (Num 0), expenses = Some (Num 30000), event = Some Retire\<rparr>]\<rparr>"




text \<open>
  What holds of one year of the run around a retire event of year \<open>R\<close>, \<open>rs\<close> being
  the year's result with the state the year ended in. The pension income of a retired
  year is the product the code forms, \<open>pensionPot * 0.04\<close>; of its sign only "not
  negative for a positive pot" is stated, since the product of a positive double and
  0.04 can round to zero.
\<close>

definition retiredAt :: "int \<Rightarrow> yearResult \<times> simState \<Rightarrow> bool" where
  "retiredAt R rs =
     ((yr_year (fst rs) < R \<longrightarrow> yr_pensionIncome (fst rs) = Num 0 \<and> \<not> isRetired (snd rs)) \<and>
      (R \<le> yr_year (fst rs) \<longrightarrow>
         isRetired (snd rs) \<and>
         yr_pensionIncome (fst rs) = pensionPot (snd rs) * Num 0.04 \<and>
         (pensionPot (snd rs) > Num 0 \<longrightarrow> Num 0 \<le> yr_pensionIncome (fst rs))))"

declare simLoop.simps [simp del]
declare simLoop_fetch.simps [simp del]

section \<open>Basic facts\<close>

lemma error_is_TypeError: "(e::error) = TypeError"
  by (cases e) simp

lemma isFinite_Num: "isFinite x \<Longrightarrow> \<exists>a. x = Num a"
  by (cases x) (simp_all add: isFinite_def)

section \<open>The receiver the constructor builds\<close>

lemma calculatePensionReturns_undefined:
  "FinancialParameters this = None \<Longrightarrow>
   calculatePensionReturns this draws n pot = Inl TypeError"
  by (simp add: calculatePensionReturns_def)

lemma calculateExpenses_undefined:
  "FinancialParameters this = None \<Longrightarrow> calculateExpenses this draws n x = Inl TypeError"
  by (simp add: calculateExpenses_def)

lemma yearBody_undefined:
  "FinancialParameters this = None \<Longrightarrow> yearBody w this p draws y i x st = Inl TypeError"
  by (simp add: yearBody_def calculatePensionReturns_undefined error_is_TypeError
      split: sum.splits prod.splits)

lemma yearStep_undefined:
  "FinancialParameters this = None \<Longrightarrow> yearStep this p draws y st = Inl TypeError"
  by (simp add: yearStep_def yearBody_undefined error_is_TypeError split: sum.splits prod.splits)

lemma yearStep_fetch_undefined:
  assumes "FinancialParameters this = None" "\<And>c. fetch c \<noteq> None"
  shows "yearStep_fetch fetch this p draws y st = Inl TypeError"
proof (cases "applyLifeEvent this p draws y st")
  case (Inl e)
  then show ?thesis by (simp add: yearStep_fetch_def error_is_TypeError)
next
  case (Inr x)
  obtain inc ex st1 where x: "x = (inc, ex, st1)" by (cases x)
  obtain ok this' where load: "loadCountryRules fetch this (country st1) = (ok, this')"
    by (cases "loadCountryRules fetch this (country st1)")
  have "ok" "FinancialParameters this' = None"
    using load assms(1) assms(2)[of "country st1"]
    by (auto simp: loadCountryRules_def split: option.splits)
  then show ?thesis
    using Inr x load by (simp add: yearStep_fetch_def yearBody_undefined)
qed

lemma simulateScenario_fetch_raises_TypeError:
  assumes "currentYear \<le> targetYear p" "\<And>c. fetch currentYear c \<noteq> None"
  shows "simulateScenario_fetch fetch (TaxSystem_fetch params) currentYear draws p = Inl TypeError"
proof -
  have "yearStep_fetch (fetch currentYear) (TaxSystem_fetch params) p draws currentYear
          (initialState p) = Inl TypeError"
    using assms(2) by (intro yearStep_fetch_undefined) (simp_all add: TaxSystem_fetch_def)
  then show ?thesis
    using assms(1) by (simp add: simulateScenario_fetch_def simLoop_fetch.simps)
qed

text \<open>
  Claim C1 says that with at least one simulated year and resolvable country rules every
  yearly transition completes without a runtime error, \<^verbatim>\<open>calculatePensionReturns\<close>
  and \<^verbatim>\<open>calculateExpenses\<close> returning a number. On the receiver the constructor
  builds the opposite holds: both methods read \<^verbatim>\<open>this.FinancialParameters\<close>, which
  is \<^verbatim>\<open>undefined\<close>, and whenever the current year is not after the target year
  \<^verbatim>\<open>simulateScenario\<close> ends in a \<^verbatim>\<open>TypeError\<close> in its first year, whatever the
  rules, the parameters, the random draws and the profile are. The second file has the
  same two methods and ends the same way when the rules of the first year's country
  resolve (\<open>simulateScenario_fetch_raises_TypeError\<close>).
\<close>

theorem simulateScenario_raises_TypeError:
  "currentYear \<le> targetYear p \<Longrightarrow>
   simulateScenario (TaxSystem rules params) currentYear draws p = Inl TypeError"
  by (simp add: simulateScenario_def simLoop.simps yearStep_undefined TaxSystem_def)

theorem simulateScenario_raises_TypeError_witness:
  "(2026::int) \<le> targetYear userProfile \<and>
   simulateScenario (TaxSystem taxRules_table financialParameters_table) 2026 (\<lambda>n. 1 / 2)
       userProfile = Inl TypeError"
proof -
  have h: "(2026::int) \<le> targetYear userProfile" by (simp add: userProfile_def)
  show ?thesis
    using h simulateScenario_raises_TypeError
      [OF h, of taxRules_table financialParameters_table "\<lambda>n. 1 / 2"]
    by simp
qed

section \<open>The wealth tax\<close>

lemma calculateWealthTax_fetch_flat:
  assumes "taxRules this c = Some rules" "personalAssetsTax rules = None"
    "wealthTax rules = Some (WealthFlat r t)"
  shows "calculateWealthTax_fetch this w c = Inr (if w > t then (w - t) * r else Num 0)"
  using assms by (simp add: calculateWealthTax_fetch_def)

lemma calculateWealthTax_fetch_no_rule:
  assumes "taxRules this c = Some rules" "personalAssetsTax rules = None"
    "wealthTax rules = None"
  shows "calculateWealthTax_fetch this w c = Inr (Num 0)"
  using assms by (simp add: calculateWealthTax_fetch_def)

lemma calculateWealthTax_flat:
  assumes "taxRules this c = Some rules" "wealthTax rules = Some (WealthFlat r t)"
  shows "calculateWealthTax this w c = Inr (if w > t then w * r else Num 0)"
  using assms by (simp add: calculateWealthTax_def)

text \<open>
  Claim C2 says that under a flat wealth-tax rule with rate \<open>r\<close> and threshold \<open>t\<close>,
  \<^verbatim>\<open>calculateWealthTax\<close> returns \<open>(w - t) * r\<close> above the threshold. The method of
  the second file does (\<open>calculateWealthTax_fetch_flat\<close>); the method of the first
  file applies the rate to the whole wealth: for the wealth of the repository's profile
  under Germany's rule (rate 0.01, threshold 1000000) it returns 12000, where the claim
  gives 2000.
\<close>

theorem calculateWealthTax_rate_on_whole_wealth:
  "calculateWealthTax (TaxSystem taxRules_table financialParameters_table)
     (initialWealth userProfile) ''Germany'' = Inr (Num 12000) \<and>
   (initialWealth userProfile - Num 1000000) * Num 0.01 = Num 2000"
  by (simp add: calculateWealthTax_def TaxSystem_def taxRules_table_def Germany_def
      userProfile_def)

section \<open>Bracket components\<close>

lemma bracket_step:
  assumes "orderedBracket b"
  shows "(if Num x > b_from b then Num a + taxableAmount (Num x) b * b_rate b else Num a)
         = Num (a + sliceAmount b x)"
proof -
  obtain r f where rf: "b_rate b = Num r" "b_from b = Num f"
    using assms isFinite_Num unfolding orderedBracket_def finiteBracket_def by blast
  show ?thesis
  proof (cases "b_to b")
    case None
    then show ?thesis using rf by (simp add: taxableAmount_def sliceAmount_def max_def)
  next
    case (Some t)
    then obtain u where u: "t = Num u" "f \<le> u"
      using assms rf isFinite_Num unfolding orderedBracket_def finiteBracket_def by fastforce
    show ?thesis using rf Some u
      by (auto simp add: taxableAmount_def sliceAmount_def max_def min_def)
  qed
qed

lemma bracketLoop_real:
  assumes "list_all orderedBracket bs"
  shows "bracketLoop (Num x) bs (Num a) = Num (a + (\<Sum>b\<leftarrow>bs. sliceAmount b x))"
  using assms
proof (induction bs arbitrary: a)
  case Nil
  then show ?case by simp
next
  case (Cons b bs)
  have "bracketLoop (Num x) (b # bs) (Num a) = bracketLoop (Num x) bs (Num (a + sliceAmount b x))"
    using Cons.prems bracket_step[of b x a] by simp
  then show ?case using Cons by (simp add: add.assoc)
qed

lemma sliceAmount_cont: "continuous_on UNIV (sliceAmount b)"
proof (cases "b_to b")
  case None
  then have "sliceAmount b = (\<lambda>x. max 0 (x - realOf (b_from b)) * realOf (b_rate b))"
    by (simp add: sliceAmount_def fun_eq_iff)
  then show ?thesis by (simp add: continuous_intros)
next
  case (Some t)
  show ?thesis
  proof (cases "realOf t = 0")
    case True
    with Some have "sliceAmount b = (\<lambda>x. max 0 (x - realOf (b_from b)) * realOf (b_rate b))"
      by (simp add: sliceAmount_def fun_eq_iff)
    then show ?thesis by (simp add: continuous_intros)
  next
    case False
    with Some have "sliceAmount b =
        (\<lambda>x. max 0 (min x (realOf t) - realOf (b_from b)) * realOf (b_rate b))"
      by (simp add: sliceAmount_def fun_eq_iff)
    then show ?thesis by (simp add: continuous_intros)
  qed
qed

lemma sliceAmount_mono:
  assumes "nonNegativeRate b" "isFinite (b_rate b)" "x \<le> y"
  shows "sliceAmount b x \<le> sliceAmount b y"
proof -
  obtain r where r: "b_rate b = Num r"
    using assms(2) isFinite_Num by blast
  with assms(1) have r0: "0 \<le> r" by (simp add: nonNegativeRate_def)
  have m1: "max 0 (x - c) \<le> max 0 (y - c)" for c :: real
    using assms(3) by (simp add: max_def)
  have m2: "max 0 (min x d - c) \<le> max 0 (min y d - c)" for c d :: real
    using assms(3) by (simp add: max_def min_def)
  show ?thesis
    unfolding sliceAmount_def using r r0 m1 m2
    by (simp add: mult_right_mono split: option.split)
qed

lemma sum_slices_cont: "continuous_on UNIV (\<lambda>x. \<Sum>b\<leftarrow>bs. sliceAmount b x)"
proof (induction bs)
  case Nil
  show ?case by simp
next
  case (Cons b bs)
  show ?case using Cons sliceAmount_cont[of b] by (simp add: continuous_on_add)
qed

lemma sum_slices_mono:
  assumes "list_all (\<lambda>b. orderedBracket b \<and> nonNegativeRate b) bs" "x \<le> y"
  shows "(\<Sum>b\<leftarrow>bs. sliceAmount b x) \<le> (\<Sum>b\<leftarrow>bs. sliceAmount b y)"
  using assms
proof (induction bs)
  case Nil
  then show ?case by simp
next
  case (Cons b bs)
  have "sliceAmount b x \<le> sliceAmount b y"
    using Cons.prems by (simp add: sliceAmount_mono orderedBracket_def finiteBracket_def)
  moreover have "(\<Sum>b\<leftarrow>bs. sliceAmount b x) \<le> (\<Sum>b\<leftarrow>bs. sliceAmount b y)"
    using Cons by simp
  ultimately show ?case by simp
qed

lemma Germany_income_taxes:
  "calculateIncomeTaxes (TaxSystem taxRules_table financialParameters_table) (Num 10000) ''Germany''
     = Inr [(''Income Tax'', Num 1400)]"
  "calculateIncomeTaxes (TaxSystem taxRules_table financialParameters_table) (Num 10001) ''Germany''
     = Inr [(''Income Tax'', Num 1400)]"
  by (simp_all add: calculateIncomeTaxes_def TaxSystem_def taxRules_table_def Germany_def
      taxableAmount_def)

text \<open>
  Claim C3, as stated, ends with: for Germany's income-tax brackets the amount at base
  10001 exceeds the amount at base 10000 by the second bracket's rate, 0.3, on the one
  incremental unit. The code gives 1400 at both bases: the first bracket ends at 10000
  and the second starts to count only above its lower bound 10001, so the unit between
  them is taxed by neither.
\<close>

theorem Germany_marginal_unit_counterexample:
  "calculateIncomeTaxes (TaxSystem taxRules_table financialParameters_table) (Num 10000) ''Germany''
     = Inr [(''Income Tax'', Num 1400)] \<and>
   calculateIncomeTaxes (TaxSystem taxRules_table financialParameters_table) (Num 10001) ''Germany''
     = Inr [(''Income Tax'', Num 1400)] \<and>
   Num 1400 - Num 1400 \<noteq> Num 0.3 * (Num 10001 - Num 10000)"
  by (simp add: Germany_income_taxes)

text \<open>
  Claim C3, amended: for every bracket component whose brackets are ordered (finite
  numbers, no upper bound below its lower bound) and have non-negative rates, the amount
  is, on the finite bases, a continuous and non-decreasing real function of the base;
  for Germany's income-tax brackets the amount at base 10001 is the amount at base
  10000: the second bracket's rate is applied only to what lies above its lower bound
  10001, so the one incremental unit is taxed at no rate.
\<close>

theorem bracket_amount_continuous_nondecreasing:
  assumes "list_all (\<lambda>b. orderedBracket b \<and> nonNegativeRate b) bs"
  shows "(\<exists>f. (\<forall>x. taxAmount (Num x) (Bracket n bs) = Num (f x)) \<and>
              continuous_on UNIV f \<and> mono f) \<and>
         calculateIncomeTaxes (TaxSystem taxRules_table financialParameters_table)
             (Num 10001) ''Germany''
           = calculateIncomeTaxes (TaxSystem taxRules_table financialParameters_table)
               (Num 10000) ''Germany''"
proof (intro conjI)
  have ordered: "list_all orderedBracket bs"
    using assms by (simp add: list_all_iff)
  show "\<exists>f. (\<forall>x. taxAmount (Num x) (Bracket n bs) = Num (f x)) \<and> continuous_on UNIV f \<and> mono f"
  proof (intro exI conjI allI)
    fix x
    show "taxAmount (Num x) (Bracket n bs) = Num (\<Sum>b\<leftarrow>bs. sliceAmount b x)"
      using ordered bracketLoop_real[of bs x 0] by simp
    show "continuous_on UNIV (\<lambda>x. \<Sum>b\<leftarrow>bs. sliceAmount b x)"
      by (rule sum_slices_cont)
    show "mono (\<lambda>x. \<Sum>b\<leftarrow>bs. sliceAmount b x)"
      using assms by (simp add: monoI sum_slices_mono)
  qed
qed (simp_all add: Germany_income_taxes)

theorem bracket_amount_continuous_nondecreasing_witness:
  "\<exists>f. (\<forall>x. taxAmount (Num x)
              (Bracket ''Income Tax''
                 [\<lparr>b_rate = Num 0.14, b_from = Num 0, b_to = Some (Num 10000)\<rparr>,
                  \<lparr>b_rate = Num 0.3, b_from = Num 10001, b_to = Some (Num 50000)\<rparr>,
                  \<lparr>b_rate = Num 0.42, b_from = Num 50001, b_to = Some (Num 200000)\<rparr>,
                  \<lparr>b_rate = Num 0.45, b_from = Num 200001, b_to = None\<rparr>]) = Num (f x)) \<and>
        continuous_on UNIV f \<and> mono f"
proof -
  have h: "list_all (\<lambda>b. orderedBracket b \<and> nonNegativeRate b)
             [\<lparr>b_rate = Num 0.14, b_from = Num 0, b_to = Some (Num 10000)\<rparr>,
              \<lparr>b_rate = Num 0.3, b_from = Num 10001, b_to = Some (Num 50000)\<rparr>,
              \<lparr>b_rate = Num 0.42, b_from = Num 50001, b_to = Some (Num 200000)\<rparr>,
              \<lparr>b_rate = Num 0.45, b_from = Num 200001, b_to = None\<rparr>]"
    by (simp add: orderedBracket_def finiteBracket_def nonNegativeRate_def isFinite_def)
  show ?thesis
    using bracket_amount_continuous_nondecreasing [OF h, of "''Income Tax''"] by blast
qed

section \<open>The income-tax amounts against the spec's formulas\<close>











section \<open>One year of the loop\<close>

lemma calculateInvestmentReturns_amounts:
  "calculateInvestmentReturns this draws n invs = Inr (invs', n') \<Longrightarrow>
   map amount invs' = map amount invs"
proof (induction invs arbitrary: n invs')
  case Nil
  then show ?case by simp
next
  case (Cons iv invs)
  then show ?case
    by (auto split: option.splits sum.splits prod.splits simp: Let_def)
qed

lemma applyLifeEvent_frame:
  assumes "applyLifeEvent this p draws y st = Inr (inc, ex, st1)"
  shows "remainingWealth st1 = remainingWealth st" "investments st1 = investments st"
    "pensionPot st1 = pensionPot st"
  using assms
  by (auto simp: applyLifeEvent_def Let_def split: sum.splits prod.splits)

lemma yearBody_cases:
  assumes "yearBody w this p draws y inc ex st = Inr (r, st')"
  obtains invs n1 returns n2 contribution where
    "calculateInvestmentReturns this draws (randomCalls st) (investments st) = Inr (invs, n1)"
    "calculatePensionReturns this draws n1 (pensionPot st) = Inr (returns, n2)"
    "calculatePensionContribution this (toNumber inc) (country st)
       (Num (of_int (y - birthYear p))) = Inr contribution"
    "pensionPot st' = pensionPot st + returns + contribution"
    "yr_pensionIncome r = (if isRetired st then pensionPot st' * Num 0.04 else Num 0)"
    "calculateIncomeTaxes this (toNumber inc + yr_pensionIncome r) (country st)
       = Inr (yr_incomeTaxes r)"
    "w this (remainingWealth st) (country st) = Inr (yr_wealthTax r)"
    "calculateCapitalGainsTax this invs (country st) = Inr (yr_capitalGainsTax r)"
    "yr_totalTax r = foldl (\<lambda>sum tax. sum + snd tax) (Num 0) (yr_incomeTaxes r)
        + yr_wealthTax r + yr_capitalGainsTax r"
    "yr_netIncome r = toNumber inc + yr_pensionIncome r
        + foldl (\<lambda>acc iv. acc + toNumber (gains iv)) (Num 0) invs - yr_totalTax r"
    "yr_expenses r = ex"
    "(remainingWealth st', investments st') = updateWealth (yr_netIncome r) ex (remainingWealth st) invs"
    "yr_remainingWealth r = remainingWealth st'"
    "yr_year r = y" "yr_country r = country st"
    "isRetired st' = isRetired st" "country st' = country st"
    "previousIncome st' = previousIncome st" "previousExpenses st' = previousExpenses st"
proof -
  obtain invs n1 where
    1: "calculateInvestmentReturns this draws (randomCalls st) (investments st) = Inr (invs, n1)"
    using assms
    by (cases "calculateInvestmentReturns this draws (randomCalls st) (investments st)")
      (auto simp: yearBody_def)
  obtain returns n2 where
    2: "calculatePensionReturns this draws n1 (pensionPot st) = Inr (returns, n2)"
    using assms 1
    by (cases "calculatePensionReturns this draws n1 (pensionPot st)")
      (auto simp: yearBody_def)
  obtain contribution where
    3: "calculatePensionContribution this (toNumber inc) (country st)
          (Num (of_int (y - birthYear p))) = Inr contribution"
    using assms 1 2
    by (cases "calculatePensionContribution this (toNumber inc) (country st)
          (Num (of_int (y - birthYear p)))")
      (auto simp: yearBody_def)
  define pot where "pot = pensionPot st + returns + contribution"
  define pensionIncome where
    "pensionIncome = (if isRetired st then calculatePensionIncome pot (Num 0.04) else Num 0)"
  note defs = yearBody_def Let_def pot_def[symmetric] pensionIncome_def[symmetric]
  obtain incomeTaxes' where
    4: "calculateIncomeTaxes this (toNumber inc + pensionIncome) (country st) = Inr incomeTaxes'"
    using assms 1 2 3
    by (cases "calculateIncomeTaxes this (toNumber inc + pensionIncome) (country st)")
      (auto simp: defs)
  obtain wealthTax' where
    5: "w this (remainingWealth st) (country st) = Inr wealthTax'"
    using assms 1 2 3 4
    by (cases "w this (remainingWealth st) (country st)") (auto simp: defs)
  obtain capitalGainsTax' where
    6: "calculateCapitalGainsTax this invs (country st) = Inr capitalGainsTax'"
    using assms 1 2 3 4 5
    by (cases "calculateCapitalGainsTax this invs (country st)") (auto simp: defs)
  define totalTax where
    "totalTax = foldl (\<lambda>sum tax. sum + snd tax) (Num 0) incomeTaxes' + wealthTax' + capitalGainsTax'"
  define netIncome where
    "netIncome = toNumber inc + pensionIncome
        + foldl (\<lambda>acc iv. acc + toNumber (gains iv)) (Num 0) invs - totalTax"
  obtain wealth' invs' where 7: "updateWealth netIncome ex (remainingWealth st) invs = (wealth', invs')"
    by (cases "updateWealth netIncome ex (remainingWealth st) invs") simp
  have r: "r = \<lparr>yr_year = y, yr_country = country st, yr_incomeTaxes = incomeTaxes',
               yr_wealthTax = wealthTax', yr_pensionIncome = pensionIncome,
               yr_capitalGainsTax = capitalGainsTax', yr_totalTax = totalTax,
               yr_netIncome = netIncome, yr_expenses = ex,
               yr_remainingWealth = wealth'\<rparr>"
    and st': "st' = st\<lparr>remainingWealth := wealth', investments := invs', pensionPot := pot,
                 randomCalls := n2\<rparr>"
    using assms 1 2 3 4 5 6 7
    by (simp_all add: defs totalTax_def[symmetric] netIncome_def[symmetric])
  show thesis
  proof (rule that[OF 1 2 3])
    show "pensionPot st' = pensionPot st + returns + contribution"
      by (simp add: st' pot_def)
    show "yr_pensionIncome r = (if isRetired st then pensionPot st' * Num 0.04 else Num 0)"
      by (simp add: r st' pensionIncome_def pot_def calculatePensionIncome_def)
    show "calculateIncomeTaxes this (toNumber inc + yr_pensionIncome r) (country st)
       = Inr (yr_incomeTaxes r)"
      using 4 by (simp add: r)
    show "w this (remainingWealth st) (country st) = Inr (yr_wealthTax r)"
      using 5 by (simp add: r)
    show "calculateCapitalGainsTax this invs (country st) = Inr (yr_capitalGainsTax r)"
      using 6 by (simp add: r)
    show "yr_totalTax r = foldl (\<lambda>sum tax. sum + snd tax) (Num 0) (yr_incomeTaxes r)
        + yr_wealthTax r + yr_capitalGainsTax r"
      by (simp add: r totalTax_def)
    show "yr_netIncome r = toNumber inc + yr_pensionIncome r
        + foldl (\<lambda>acc iv. acc + toNumber (gains iv)) (Num 0) invs - yr_totalTax r"
      by (simp add: r netIncome_def)
    show "yr_expenses r = ex" by (simp add: r)
    show "(remainingWealth st', investments st') = updateWealth (yr_netIncome r) ex (remainingWealth st) invs"
      by (simp add: r st' 7)
    show "yr_remainingWealth r = remainingWealth st'" by (simp add: r st')
    show "yr_year r = y" by (simp add: r)
    show "yr_country r = country st" by (simp add: r)
    show "isRetired st' = isRetired st" by (simp add: st')
    show "country st' = country st" by (simp add: st')
    show "previousIncome st' = previousIncome st" by (simp add: st')
    show "previousExpenses st' = previousExpenses st" by (simp add: st')
  qed
qed


lemma applyLifeEvent_cases:
  assumes "applyLifeEvent this p draws y st = Inr (inc, ex, st1)"
  obtains n where
    "inc = (case find (\<lambda>e. year e = y) (lifeEvents p) of
              None \<Rightarrow> previousIncome st
            | Some ev \<Rightarrow> (case income ev of None \<Rightarrow> previousIncome st | Some i \<Rightarrow> Some i))"
    "(case find (\<lambda>e. year e = y) (lifeEvents p) of
        None \<Rightarrow> calculateExpenses this draws (randomCalls st) (toNumber (previousExpenses st))
      | Some ev \<Rightarrow>
          (case expenses ev of
             None \<Rightarrow> calculateExpenses this draws (randomCalls st) (toNumber (previousExpenses st))
           | Some x \<Rightarrow> Inr (x, randomCalls st))) = Inr (ex, n)"
    "st1 = st\<lparr>previousIncome := inc, previousExpenses := Some ex,
              isRetired := (case find (\<lambda>e. year e = y) (lifeEvents p) of
                              None \<Rightarrow> isRetired st
                            | Some ev \<Rightarrow> (if event ev = Some Retire then True else isRetired st)),
              country := (case find (\<lambda>e. year e = y) (lifeEvents p) of
                            None \<Rightarrow> country st
                          | Some ev \<Rightarrow> (case event ev of Some (Move c) \<Rightarrow> c | _ \<Rightarrow> country st)),
              randomCalls := n\<rparr>"
  using assms unfolding applyLifeEvent_def Let_def
  by (auto split: sum.splits prod.splits)

lemma yearStep_cases:
  assumes "yearStep this p draws y st = Inr (r, st')"
  obtains inc ex st1 where
    "applyLifeEvent this p draws y st = Inr (inc, ex, st1)"
    "yearBody calculateWealthTax this p draws y inc ex st1 = Inr (r, st')"
  using assms
  by (cases "applyLifeEvent this p draws y st") (auto simp: yearStep_def)

lemma le_not_less_jsnum: "(b::jsnum) \<le> a \<Longrightarrow> \<not> a < b"
  by (cases a; cases b) auto

lemma division_by_zero_not_finite: "\<not> isFinite (a + s * (a / Num 0))"
  by (cases a; cases s) (auto simp: isFinite_def)

lemma yearStep_surplus:
  assumes "yearStep this p draws y st = Inr (r, st')" "yr_netIncome r \<ge> yr_expenses r"
  shows "remainingWealth st' = remainingWealth st + (yr_netIncome r - yr_expenses r)"
    and "map amount (investments st')
         = map (\<lambda>iv. amount iv + (yr_netIncome r - yr_expenses r) * (amount iv / remainingWealth st'))
             (investments st)"
    and "yr_remainingWealth r = remainingWealth st'"
proof -
  from assms(1) obtain inc ex st1 where
    ev: "applyLifeEvent this p draws y st = Inr (inc, ex, st1)" and
    body: "yearBody calculateWealthTax this p draws y inc ex st1 = Inr (r, st')"
    by (rule yearStep_cases)
  have frame: "remainingWealth st1 = remainingWealth st" "investments st1 = investments st"
    using applyLifeEvent_frame[OF ev] by simp_all
  from body obtain invs n1 where
    returns: "calculateInvestmentReturns this draws (randomCalls st1) (investments st1) = Inr (invs, n1)"
    and ex: "yr_expenses r = ex"
    and upd: "(remainingWealth st', investments st')
              = updateWealth (yr_netIncome r) ex (remainingWealth st1) invs"
    and res: "yr_remainingWealth r = remainingWealth st'"
    by (rule yearBody_cases)
  have amounts: "map amount invs = map amount (investments st)"
    using calculateInvestmentReturns_amounts[OF returns] frame by simp
  have nl: "\<not> yr_netIncome r < ex"
    using assms(2) ex le_not_less_jsnum by simp
  from upd nl have w: "remainingWealth st' = remainingWealth st1 + (yr_netIncome r - ex)"
    and i: "investments st'
            = map (\<lambda>iv. iv\<lparr>amount := amount iv + (yr_netIncome r - ex) * (amount iv / remainingWealth st')\<rparr>) invs"
    by (simp_all add: updateWealth_def Let_def)
  show "remainingWealth st' = remainingWealth st + (yr_netIncome r - yr_expenses r)"
    using w frame ex by simp
  have "map amount (investments st')
        = map (\<lambda>iv. amount iv + (yr_netIncome r - ex) * (amount iv / remainingWealth st')) invs"
    by (subst i) (simp add: comp_def)
  also have "\<dots> = map (\<lambda>a. a + (yr_netIncome r - ex) * (a / remainingWealth st')) (map amount invs)"
    by (simp add: comp_def)
  also have "\<dots> = map (\<lambda>a. a + (yr_netIncome r - ex) * (a / remainingWealth st'))
                     (map amount (investments st))"
    by (simp only: amounts)
  finally show "map amount (investments st')
         = map (\<lambda>iv. amount iv + (yr_netIncome r - yr_expenses r) * (amount iv / remainingWealth st'))
             (investments st)"
    by (simp add: comp_def ex)
  show "yr_remainingWealth r = remainingWealth st'" by (rule res)
qed

lemmas eval_defs = yearStep_def yearBody_def applyLifeEvent_def updateWealth_def
  calculateExpenses_def calculatePensionReturns_def calculatePensionContribution_def
  calculatePensionIncome_def calculateIncomeTaxes_def calculateWealthTax_def
  calculateCapitalGainsTax_def rateOrZero_def randomFactor_def taxableAmount_def
  initialState_def assignedSystem_def TaxSystem_def taxRules_table_def
  financialParameters_table_def Germany_def USA_def Let_def

lemma empty_step:
  "yearStep assignedSystem emptyProfile (\<lambda>n. 1 / 2) 2026 (initialState emptyProfile)
   = Inr (\<lparr>yr_year = 2026, yr_country = ''Germany'', yr_incomeTaxes = [(''Income Tax'', Num 0)],
            yr_wealthTax = Num 0, yr_pensionIncome = Num 0, yr_capitalGainsTax = Num 0,
            yr_totalTax = Num 0, yr_netIncome = Num 0, yr_expenses = Num 0,
            yr_remainingWealth = Num 0\<rparr>,
          \<lparr>remainingWealth = Num 0,
           investments = [\<lparr>itype = ''indexFunds'', amount = NaN, gains = Some (Num 0)\<rparr>],
           pensionPot = Num 0, isRetired = False, previousIncome = Some (Num 0),
           previousExpenses = Some (Num 0), country = ''Germany'', randomCalls = 2\<rparr>)"
  by (simp add: eval_defs emptyProfile_def)

lemma user_step:
  "\<exists>r st'. yearStep assignedSystem userProfile (\<lambda>n. 1 / 2) 2049 (initialState userProfile) = Inr (r, st')
     \<and> yr_expenses r \<le> yr_netIncome r \<and> yr_expenses r = Num 42840
     \<and> previousIncome st' = Some (Num 80000) \<and> pensionPot st' = Num 119400"
  by (simp add: eval_defs userProfile_def)


lemma times_divide_jsnum: "s * (a / w) = (s * a) / (w::jsnum)"
  by (cases s; cases a; cases w) (auto simp: zero_less_mult_iff mult_less_0_iff zero_less_divide_iff divide_le_0_iff
      not_less)

text \<open>
  Claim C6: in every year step in which \<open>netIncome \<ge> expenses\<close>, the new wealth is
  the old wealth plus the surplus, and each investment position's amount increases by
  \<open>surplus * (positionAmount / updatedWealth)\<close>, the denominator being the wealth
  that already holds the surplus. (\<open>times_divide_jsnum\<close>: the product may as well be
  taken before the division.)
\<close>

theorem surplus_added_and_distributed:
  assumes "yearStep this p draws y st = Inr (r, st')" "yr_netIncome r \<ge> yr_expenses r"
  shows "remainingWealth st' = remainingWealth st + (yr_netIncome r - yr_expenses r) \<and>
         yr_remainingWealth r = remainingWealth st' \<and>
         map amount (investments st')
           = map (\<lambda>iv. amount iv + (yr_netIncome r - yr_expenses r) * (amount iv / remainingWealth st'))
               (investments st)"
  using yearStep_surplus[OF assms] by simp

theorem surplus_added_and_distributed_witness:
  "\<exists>r st'. yearStep assignedSystem userProfile (\<lambda>n. 1 / 2) 2049 (initialState userProfile)
             = Inr (r, st') \<and>
           yr_expenses r \<le> yr_netIncome r \<and>
           remainingWealth st' = Num 1200000 + (yr_netIncome r - yr_expenses r) \<and>
           map amount (investments st')
             = [Num 50000 + (yr_netIncome r - yr_expenses r) * (Num 50000 / remainingWealth st'),
                Num 30000 + (yr_netIncome r - yr_expenses r) * (Num 30000 / remainingWealth st')]"
proof -
  obtain r st' where
    step: "yearStep assignedSystem userProfile (\<lambda>n. 1 / 2) 2049 (initialState userProfile) = Inr (r, st')"
    and ge: "yr_expenses r \<le> yr_netIncome r"
    using user_step by blast
  show ?thesis
    using surplus_added_and_distributed[OF step ge] step ge
    by (auto simp: initialState_def userProfile_def)
qed

text \<open>
  Claim C7 says the division is guarded: at a post-surplus wealth of exactly zero no
  division by zero occurs and the positions stay unchanged. The code has no guard. The
  first year of \<open>emptyProfile\<close> has net income 0 and expenses 0, which is the surplus
  branch with surplus 0; the wealth stays 0, and the amount of the position becomes
  \<open>0 + 0 * (0 / 0)\<close>, which is \<^verbatim>\<open>NaN\<close>, where it was 0. The last conjunct is
  lines 317-326 alone at these values.
\<close>

theorem zero_wealth_distribution_counterexample:
  "(case yearStep assignedSystem emptyProfile (\<lambda>n. 1 / 2) 2026 (initialState emptyProfile) of
      Inl err \<Rightarrow> False
    | Inr (r, st') \<Rightarrow>
        yr_netIncome r = Num 0 \<and> yr_expenses r = Num 0 \<and>
        remainingWealth (initialState emptyProfile) = Num 0 \<and>
        remainingWealth st' = Num 0 \<and>
        map amount (investments (initialState emptyProfile)) = [Num 0] \<and>
        map amount (investments st') = [NaN]) \<and>
   updateWealth (Num 0) (Num 0) (Num 0)
       [\<lparr>itype = ''indexFunds'', amount = Num 0, gains = Some (Num 0)\<rparr>]
     = (Num 0, [\<lparr>itype = ''indexFunds'', amount = NaN, gains = Some (Num 0)\<rparr>])"
  by (simp add: empty_step)
    (simp add: initialState_def emptyProfile_def updateWealth_def Let_def)

text \<open>
  Claim C7, amended: the division is not guarded. In a year step with
  \<open>netIncome \<ge> expenses\<close> whose post-surplus wealth is exactly zero, every position's
  amount becomes \<open>amount + surplus * (amount / 0)\<close>; JavaScript raises no error at the
  division, and the new amount is not a finite number (\<^verbatim>\<open>NaN\<close> or an infinity), so
  no position with a finite amount is left unchanged.
\<close>

theorem division_by_zero_wealth_not_guarded:
  assumes "yearStep this p draws y st = Inr (r, st')" "yr_netIncome r \<ge> yr_expenses r"
    "remainingWealth st' = Num 0"
  shows "map amount (investments st')
           = map (\<lambda>iv. amount iv + (yr_netIncome r - yr_expenses r) * (amount iv / Num 0))
               (investments st) \<and>
         list_all (\<lambda>iv. \<not> isFinite (amount iv)) (investments st')"
proof -
  have m: "map amount (investments st')
           = map (\<lambda>iv. amount iv + (yr_netIncome r - yr_expenses r) * (amount iv / Num 0))
               (investments st)"
    using yearStep_surplus(2)[OF assms(1,2)] assms(3) by simp
  have "list_all (\<lambda>a. \<not> isFinite a) (map amount (investments st'))"
    unfolding m by (simp add: list_all_iff division_by_zero_not_finite)
  then have "list_all (\<lambda>iv. \<not> isFinite (amount iv)) (investments st')"
    by (simp add: list.pred_map comp_def)
  then show ?thesis using m by simp
qed

theorem division_by_zero_wealth_not_guarded_witness:
  "\<exists>r st'. yearStep assignedSystem emptyProfile (\<lambda>n. 1 / 2) 2026 (initialState emptyProfile)
             = Inr (r, st') \<and>
           yr_expenses r \<le> yr_netIncome r \<and> remainingWealth st' = Num 0 \<and>
           map amount (investments st') = [Num 0 + (Num 0 - Num 0) * (Num 0 / Num 0)] \<and>
           list_all (\<lambda>iv. \<not> isFinite (amount iv)) (investments st')"
proof -
  obtain r st' where
    step: "yearStep assignedSystem emptyProfile (\<lambda>n. 1 / 2) 2026 (initialState emptyProfile) = Inr (r, st')"
    and ge: "yr_expenses r \<le> yr_netIncome r" and zero: "remainingWealth st' = Num 0"
    and vals: "yr_netIncome r = Num 0" "yr_expenses r = Num 0"
    using empty_step by simp
  have "map amount (investments (initialState emptyProfile)) = [Num 0]"
    by (simp add: initialState_def emptyProfile_def)
  then show ?thesis
    using division_by_zero_wealth_not_guarded[OF step ge zero] step ge zero vals by auto
qed

text \<open>
  Claim C9: computing the pension income leaves the pension pot unchanged. In every year
  step the pot after the year is the pot before it plus the sampled pension return plus
  the pension contribution, retired or not, and the pension income of a retired year is
  0.04 of that pot, which is not taken from it. The witness is the year 2030 of the
  repository's profile, the year of its retire event, in which a pension income is
  drawn.
\<close>

theorem pension_pot_only_grows_by_returns_and_contribution:
  assumes "yearStep this p draws y st = Inr (r, st')"
  shows "\<exists>inc ex st1 invs n1 returns n2 contribution.
           applyLifeEvent this p draws y st = Inr (inc, ex, st1) \<and>
           calculateInvestmentReturns this draws (randomCalls st1) (investments st) = Inr (invs, n1) \<and>
           calculatePensionReturns this draws n1 (pensionPot st) = Inr (returns, n2) \<and>
           calculatePensionContribution this (toNumber inc) (country st1)
             (Num (of_int (y - birthYear p))) = Inr contribution \<and>
           pensionPot st' = pensionPot st + returns + contribution \<and>
           yr_pensionIncome r
             = (if isRetired st' then calculatePensionIncome (pensionPot st') (Num 0.04) else Num 0)"
proof -
  from assms obtain inc ex st1 where
    ev: "applyLifeEvent this p draws y st = Inr (inc, ex, st1)" and
    body: "yearBody calculateWealthTax this p draws y inc ex st1 = Inr (r, st')"
    by (rule yearStep_cases)
  have frame: "investments st1 = investments st" "pensionPot st1 = pensionPot st"
    using applyLifeEvent_frame[OF ev] by simp_all
  from body obtain invs n1 returns n2 contribution where
    "calculateInvestmentReturns this draws (randomCalls st1) (investments st1) = Inr (invs, n1)"
    "calculatePensionReturns this draws n1 (pensionPot st1) = Inr (returns, n2)"
    "calculatePensionContribution this (toNumber inc) (country st1)
       (Num (of_int (y - birthYear p))) = Inr contribution"
    "pensionPot st' = pensionPot st1 + returns + contribution"
    "yr_pensionIncome r = (if isRetired st1 then pensionPot st' * Num 0.04 else Num 0)"
    "isRetired st' = isRetired st1"
    by (rule yearBody_cases)
  then show ?thesis
    using ev frame by (auto simp: calculatePensionIncome_def)
qed
lemma retire_step:
  "\<exists>r st'. yearStep assignedSystem userProfile (\<lambda>n. 1 / 2) 2030 (initialState userProfile)
             = Inr (r, st') \<and>
           isRetired st' \<and> yr_pensionIncome r > Num 0"
  by (simp add: eval_defs userProfile_def)

theorem pension_pot_only_grows_by_returns_and_contribution_witness:
  "\<exists>r st'.
      yearStep assignedSystem userProfile (\<lambda>n. 1 / 2) 2030 (initialState userProfile) = Inr (r, st') \<and>
      isRetired st' \<and> yr_pensionIncome r > Num 0 \<and>
      (\<exists>inc ex st1 invs n1 returns n2 contribution.
         applyLifeEvent assignedSystem userProfile (\<lambda>n. 1 / 2) 2030 (initialState userProfile)
           = Inr (inc, ex, st1) \<and>
         calculateInvestmentReturns assignedSystem (\<lambda>n. 1 / 2) (randomCalls st1)
             (investments (initialState userProfile)) = Inr (invs, n1) \<and>
         calculatePensionReturns assignedSystem (\<lambda>n. 1 / 2) n1
             (pensionPot (initialState userProfile)) = Inr (returns, n2) \<and>
         calculatePensionContribution assignedSystem (toNumber inc) (country st1)
             (Num (of_int (2030 - birthYear userProfile))) = Inr contribution \<and>
         pensionPot st' = pensionPot (initialState userProfile) + returns + contribution \<and>
         yr_pensionIncome r
           = (if isRetired st' then calculatePensionIncome (pensionPot st') (Num 0.04) else Num 0))"
proof -
  obtain r st' where
    step: "yearStep assignedSystem userProfile (\<lambda>n. 1 / 2) 2030 (initialState userProfile) = Inr (r, st')"
    and retired: "isRetired st'" and withdrawn: "yr_pensionIncome r > Num 0"
    using retire_step by blast
  show ?thesis
    using pension_pot_only_grows_by_returns_and_contribution[OF step] step retired withdrawn
    by blast
qed

lemma first_year_on_assigned_receiver:
  assumes "find (\<lambda>e. year e = currentYear) (lifeEvents p) = None"
    "FinancialParameters this = Some params" "params ''inflation'' = Some e"
  shows "\<exists>st1.
           applyLifeEvent this p draws currentYear (initialState p)
             = Inr (case lifeEvents p of [] \<Rightarrow> Some (Num 0) | ev # evs \<Rightarrow> income ev,
                    toNumber (case lifeEvents p of [] \<Rightarrow> Some (Num 0) | ev # evs \<Rightarrow> expenses ev)
                      * (Num 1 + (rate e + randomFactor draws 0 (volatility e))),
                    st1) \<and>
           previousIncome st1 = (case lifeEvents p of [] \<Rightarrow> Some (Num 0) | ev # evs \<Rightarrow> income ev)"
  using assms
  by (simp add: applyLifeEvent_def calculateExpenses_def initialState_def Let_def)

text \<open>
  Claim C10 says that the starting income and expenses come from the first element of
  \<^verbatim>\<open>lifeEvents\<close>, whatever its year (0 for an empty list), and that, when no life
  event matches the first simulated year, that year's income is
  \<^verbatim>\<open>lifeEvents[0].income\<close> and its expenses are the inflation adjustment of
  \<^verbatim>\<open>lifeEvents[0].expenses\<close>. The two variables are set up so; but on the receiver
  the constructor builds (of either file) the year has no expenses: with no matching
  life event line 278 calls \<^verbatim>\<open>calculateExpenses\<close>, which reads
  \<^verbatim>\<open>this.FinancialParameters\<close> and raises a \<^verbatim>\<open>TypeError\<close>, the defect of claim C1.
  Where the property is assigned, the year's income and expenses are the claim's, the
  expenses being \<open>lifeEvents[0].expenses * (1 + (rate + randomFactor))\<close>
  (\<open>first_year_on_assigned_receiver\<close>).
\<close>

theorem first_year_expenses_raise_TypeError:
  assumes "find (\<lambda>e. year e = currentYear) (lifeEvents p) = None"
  shows "previousIncome (initialState p)
           = (case lifeEvents p of [] \<Rightarrow> Some (Num 0) | ev # evs \<Rightarrow> income ev) \<and>
         previousExpenses (initialState p)
           = (case lifeEvents p of [] \<Rightarrow> Some (Num 0) | ev # evs \<Rightarrow> expenses ev) \<and>
         applyLifeEvent (TaxSystem rules params) p draws currentYear (initialState p)
           = Inl TypeError \<and>
         applyLifeEvent (TaxSystem_fetch params) p draws currentYear (initialState p)
           = Inl TypeError"
  using assms
  by (simp add: applyLifeEvent_def calculateExpenses_undefined TaxSystem_def TaxSystem_fetch_def
      initialState_def Let_def)

theorem first_year_expenses_raise_TypeError_witness:
  "find (\<lambda>e. year e = 2026) (lifeEvents userProfile) = None \<and>
   previousIncome (initialState userProfile) = Some (Num 80000) \<and>
   previousExpenses (initialState userProfile) = Some (Num 42000) \<and>
   applyLifeEvent (TaxSystem taxRules_table financialParameters_table) userProfile (\<lambda>n. 1 / 2)
       2026 (initialState userProfile) = Inl TypeError"
proof -
  have none: "find (\<lambda>e. year e = 2026) (lifeEvents userProfile) = None"
    by (simp add: userProfile_def)
  show ?thesis
    using first_year_expenses_raise_TypeError
      [OF none, of taxRules_table financialParameters_table "\<lambda>n. 1 / 2"] none
    by (simp add: userProfile_def)
qed

section \<open>Retirement over the run\<close>

lemma find_Some_set: "find P xs = Some x \<Longrightarrow> x \<in> set xs \<and> P x"
  by (induction xs) (auto split: if_splits)

lemma withdrawal_not_negative: "p > Num 0 \<Longrightarrow> Num 0 \<le> p * Num 0.04"
  by (cases p) auto

lemma yearStep_retirement:
  assumes step: "yearStep this p draws y st = Inr (r, st')"
  shows "yr_year r = y"
    and "isRetired st' = (case find (\<lambda>e. year e = y) (lifeEvents p) of
                            None \<Rightarrow> isRetired st
                          | Some ev \<Rightarrow> event ev = Some Retire \<or> isRetired st)"
    and "yr_pensionIncome r = (if isRetired st' then pensionPot st' * Num 0.04 else Num 0)"
proof -
  from step obtain inc ex st1 where
    ev: "applyLifeEvent this p draws y st = Inr (inc, ex, st1)" and
    body: "yearBody calculateWealthTax this p draws y inc ex st1 = Inr (r, st')"
    by (rule yearStep_cases)
  from ev have r1: "isRetired st1 = (case find (\<lambda>e. year e = y) (lifeEvents p) of
                            None \<Rightarrow> isRetired st
                          | Some ev \<Rightarrow> event ev = Some Retire \<or> isRetired st)"
    by (rule applyLifeEvent_cases) (auto split: option.splits)
  from body have b: "yr_year r = y" "isRetired st' = isRetired st1"
    "yr_pensionIncome r = (if isRetired st1 then pensionPot st' * Num 0.04 else Num 0)"
    by (rule yearBody_cases; simp)+
  show "yr_year r = y" by (rule b(1))
  show "isRetired st' = (case find (\<lambda>e. year e = y) (lifeEvents p) of
                            None \<Rightarrow> isRetired st
                          | Some ev \<Rightarrow> event ev = Some Retire \<or> isRetired st)"
    using b(2) r1 by simp
  show "yr_pensionIncome r = (if isRetired st' then pensionPot st' * Num 0.04 else Num 0)"
    using b(2,3) by simp
qed

lemma yearStep_stays_retired:
  "yearStep this p draws y st = Inr (r, st') \<Longrightarrow> isRetired st \<Longrightarrow> isRetired st'"
  using yearStep_retirement(2)[of this p draws y st r st']
  by (simp split: option.splits)

lemma yearStep_retiredAt:
  assumes step: "yearStep this p draws y st = Inr (r, st')"
    and ev: "find (\<lambda>e. year e = R) (lifeEvents p) = Some ev" "event ev = Some Retire"
    and only: "list_all (\<lambda>e. event e = Some Retire \<longrightarrow> year e = R) (lifeEvents p)"
    and inv: "isRetired st = (R < y)"
  shows "isRetired st' = (R < y + 1)" "retiredAt R (r, st')"
proof -
  note facts = yearStep_retirement[OF step]
  have ret: "isRetired st' = (R \<le> y)"
  proof (cases "y = R")
    case True
    then show ?thesis using facts(2) ev by simp
  next
    case False
    show ?thesis
    proof (cases "find (\<lambda>e. year e = y) (lifeEvents p)")
      case None
      then show ?thesis using facts(2) inv False by auto
    next
      case (Some e)
      then have "e \<in> set (lifeEvents p)" "year e = y"
        using find_Some_set[of "\<lambda>e. year e = y" "lifeEvents p" e] by simp_all
      with only False have "event e \<noteq> Some Retire"
        by (auto simp: list_all_iff)
      then show ?thesis using facts(2) Some inv False by auto
    qed
  qed
  then show "isRetired st' = (R < y + 1)" by auto
  show "retiredAt R (r, st')"
    using ret facts(1,3) withdrawal_not_negative by (auto simp: retiredAt_def)
qed

lemma simLoop_retiredAt:
  "simLoop this p draws y st results = Inr trace \<Longrightarrow>
   find (\<lambda>e. year e = R) (lifeEvents p) = Some ev \<Longrightarrow> event ev = Some Retire \<Longrightarrow>
   list_all (\<lambda>e. event e = Some Retire \<longrightarrow> year e = R) (lifeEvents p) \<Longrightarrow>
   isRetired st = (R < y) \<Longrightarrow> list_all (retiredAt R) results \<Longrightarrow>
   list_all (retiredAt R) trace"
proof (induction this p draws y st results rule: simLoop.induct)
  case (1 this p draws y st results)
  show ?case
  proof (cases "y \<le> targetYear p")
    case False
    then show ?thesis using "1.prems" by (simp add: simLoop.simps)
  next
    case True
    show ?thesis
    proof (cases "yearStep this p draws y st")
      case (Inl e)
      then show ?thesis using "1.prems" True by (simp add: simLoop.simps)
    next
      case (Inr x)
      obtain r st' where x: "x = (r, st')" by (cases x)
      have step: "yearStep this p draws y st = Inr (r, st')" using Inr x by simp
      have next_loop: "simLoop this p draws (y + 1) st' (results @ [(r, st')]) = Inr trace"
        using "1.prems"(1) True step by (simp add: simLoop.simps)
      have "isRetired st' = (R < y + 1)" "retiredAt R (r, st')"
        using yearStep_retiredAt[OF step "1.prems"(2,3,4,5)] by simp_all
      then show ?thesis
        using "1.IH"[OF True step refl next_loop "1.prems"(2,3,4)] "1.prems"(6) by simp
    qed
  qed
qed

text \<open>
  Claim C8 says that with the only retire event at year \<open>R\<close> every result for a year
  \<open>\<ge> R\<close> has a pension income of 0.04 of the pot. The loop sets the flag only in the
  iteration of the event's own year: for \<open>earlyRetiree\<close>, whose retire event of 2020
  lies before the first simulated year 2026, the result of 2026 has pension income 0
  with a pot of 105000.
\<close>

theorem retire_event_before_first_year_counterexample:
  "map_sum id (map (\<lambda>rs. (yr_year (fst rs), yr_pensionIncome (fst rs), pensionPot (snd rs))))
     (simLoop assignedSystem earlyRetiree (\<lambda>n. 1 / 2) 2026 (initialState earlyRetiree) [])
     = Inr [(2026, Num 0, Num 105000)] \<and>
   map_sum id (map (\<lambda>r. (yr_year r, yr_pensionIncome r)))
     (simulateScenario assignedSystem 2026 (\<lambda>n. 1 / 2) earlyRetiree)
     = Inr [(2026, Num 0)] \<and>
   map year (filter (\<lambda>e. event e = Some Retire) (lifeEvents earlyRetiree)) = [2020]"
  by (simp add: simulateScenario_def simLoop.simps eval_defs earlyRetiree_def)

text \<open>
  Claim C8, amended: for every profile whose only retire event is at year \<open>R\<close>, with
  \<open>R\<close> not before the first simulated year and the retire event being the life event
  the lookup for year \<open>R\<close> finds, every result for a year before \<open>R\<close> has pension
  income 0, and every result for a year from \<open>R\<close> on is computed in the retired state
  and has the pension income \<open>pensionPot * 0.04\<close> of the year's pension pot, which is
  not negative when that pot is positive.
\<close>

theorem pension_income_after_retire_event:
  assumes "simLoop this p draws currentYear (initialState p) [] = Inr trace"
    "find (\<lambda>e. year e = R) (lifeEvents p) = Some ev" "event ev = Some Retire"
    "list_all (\<lambda>e. event e = Some Retire \<longrightarrow> year e = R) (lifeEvents p)"
    "currentYear \<le> R"
  shows "simulateScenario this currentYear draws p = Inr (map fst trace) \<and>
         list_all (retiredAt R) trace"
proof -
  have "isRetired (initialState p) = (R < currentYear)"
    using assms(5) by (simp add: initialState_def)
  then have "list_all (retiredAt R) trace"
    using simLoop_retiredAt[OF assms(1,2,3,4)] by simp
  then show ?thesis using assms(1) by (simp add: simulateScenario_def)
qed

theorem pension_income_after_retire_event_witness:
  "\<exists>trace. simLoop assignedSystem (userProfile\<lparr>targetYear := 2031\<rparr>) (\<lambda>n. 1 / 2) 2029
              (initialState (userProfile\<lparr>targetYear := 2031\<rparr>)) [] = Inr trace \<and>
           map (\<lambda>rs. (yr_year (fst rs), isRetired (snd rs))) trace
             = [(2029, False), (2030, True), (2031, True)] \<and>
           list_all (retiredAt 2030) trace"
proof -
  let ?p = "userProfile\<lparr>targetYear := 2031\<rparr>"
  obtain trace where
    run: "simLoop assignedSystem ?p (\<lambda>n. 1 / 2) 2029 (initialState ?p) [] = Inr trace"
    and years: "map (\<lambda>rs. (yr_year (fst rs), isRetired (snd rs))) trace
                 = [(2029, False), (2030, True), (2031, True)]"
    by (simp add: simLoop.simps eval_defs userProfile_def)
  have ev: "find (\<lambda>e. year e = 2030) (lifeEvents ?p)
            = Some \<lparr>year = 2030, income = None, expenses = None, event = Some Retire\<rparr>"
    by (simp add: userProfile_def)
  have only: "list_all (\<lambda>e. event e = Some Retire \<longrightarrow> year e = 2030) (lifeEvents ?p)"
    by (simp add: userProfile_def)
  show ?thesis
    using pension_income_after_retire_event[OF run ev _ only] run years by simp
qed

section \<open>A year whose country rules cannot be loaded\<close>






end
